theory Spec2Isabelle
  imports Main "HOL-Library.AList" "HOL-Library.Multiset"
begin

section \<open>Data model of the server (src/src/index.ts)\<close>

text \<open>
  One row of the \<open>memory\<close> table, the interface \<open>Memory\<close> of the source. The
  column \<open>id\<close> is called \<open>mem_id\<close> here (\<open>id\<close> is the identity function of HOL).
  The \<open>timestamp\<close> column is filled by the store with \<open>CURRENT_TIMESTAMP\<close>, a
  fixed-width text whose text order is the order of the clock: it is modelled as the
  clock reading, a natural number of seconds.
\<close>

record Memory =
  mem_id :: nat
  userId :: string
  prompt :: string
  response :: string
  timestamp :: nat
  provider :: string

text \<open>
  What a handler throws: an \<open>McpError\<close> with its protocol code, or a plain
  JavaScript \<open>Error\<close> (which is also what a rejected database promise carries).
\<close>

datatype ErrorCode = InvalidParams | InternalError | MethodNotFound

datatype failure = McpError ErrorCode string | Error string

text \<open>
  The \<open>TypeError\<close> of reading the property \<open>p\<close> of \<open>undefined\<close>, which is what a
  handler meets first when the call has no arguments object.
\<close>

definition typeError :: "string \<Rightarrow> failure" where
  "typeError p = Error (''Cannot read properties of undefined (reading '' @ [CHR 0x27] @ p
                        @ [CHR 0x27] @ '')'')"

text \<open>
  The outcome of one HTTP call made through axios: a failure with its \<open>code\<close> and
  \<open>message\<close>, or the part of the body the caller extracts.
\<close>

datatype 'a http = HttpFail string string | HttpOk 'a

datatype net_call = Get string | Post string "string option" string

text \<open>
  The external settings document at \<open>settingsPath\<close>. \<open>Unreadable m\<close> stands for
  every way in which \<open>readFile\<close>, \<open>JSON.parse\<close> or the access
  \<open>settings.mcpServers['letta-memgpt']\<close> throws, \<open>m\<close> being the message of the
  thrown error. \<open>Doc None\<close> is a document whose \<open>mcpServers\<close> has no entry for
  this server; \<open>Doc (Some en)\<close> one that has the entry \<open>en\<close>. The entry is taken
  well-typed: \<open>defaultProvider\<close> is absent or a string, \<open>models\<close> is absent or an
  object of strings (kept in insertion order).
\<close>

record server_entry =
  defaultProvider :: "string option"
  models :: "(string \<times> string) list option"

datatype mirror = Unreadable string | Doc "server_entry option"

text \<open>
  The arguments object of a tool call. A property that is not sent is \<open>None\<close>;
  \<open>limit\<close> distinguishes a property that is not sent, \<open>null\<close>, a number whose
  value is the integer \<open>n\<close> (\<open>LimitNum n\<close>) and a number that is not an integer
  (\<open>LimitFraction\<close>). A call may come with no arguments object at all: the handlers
  take an \<open>args option\<close>, and \<open>None\<close> is \<open>undefined\<close>.
\<close>

datatype limit_arg = LimitOmitted | LimitNull | LimitNum int | LimitFraction

record args =
  arg_message :: "string option"
  arg_provider :: "string option"
  arg_model :: "string option"
  arg_limit :: limit_arg

text \<open>
  What the outside world answers during one operation: the errors of the database
  statements (\<open>CREATE TABLE\<close>, \<open>db.get\<close>/\<open>db.all\<close>, \<open>db.run\<close>), the error
  of \<open>writeFile\<close>, the clock of the store, the answer of the local service to
  \<open>/api/tags\<close> (the names of its models) and the answer to the one POST of the
  operation (the text extracted from the body).
\<close>

record env =
  create_err :: "string option"
  get_err :: "string option"
  run_err :: "string option"
  write_err :: "string option"
  now :: nat
  tags :: "string list http"
  post :: "string http"

text \<open>
  The fields of \<open>LettaMemGPTServer\<close> together with what they refer to: the two
  tables of the database (\<open>settings\<close> as its rows key/value in insertion order,
  \<open>memory\<close> as its rows in the order in which the engine scans them, and the
  counter of \<open>AUTOINCREMENT\<close>), the settings document, and two logs: the lines
  written with \<open>console.error\<close> and the HTTP calls made.
\<close>

record state =
  currentProvider :: string
  currentModel :: "(string \<times> string) list"
  openaiKey :: string
  anthropicKey :: string
  openrouterKey :: string
  settings_tbl :: "(string \<times> string) list"
  memory_tbl :: "Memory list"
  memory_seq :: nat
  settingsFile :: mirror
  console :: "string list"
  network :: "net_call list"

section \<open>Startup\<close>

definition DEFAULT_USER :: string where
  "DEFAULT_USER = ''default_user''"

text \<open>The field initialisers of the class: what a fresh process starts from.\<close>

definition constructor :: "state \<Rightarrow> state" where
  "constructor w = w\<lparr>currentProvider := ''openai'',
     currentModel := [(''openai'', ''gpt-3.5-turbo''),
                      (''openrouter'', ''openai/gpt-3.5-turbo''),
                      (''anthropic'', ''claude-2''),
                      (''ollama'', ''llama3.3:latest'')]\<rparr>"

text \<open>\<open>console.error(label, m)\<close>: one line of the diagnostic log.\<close>

definition console_error :: "string \<Rightarrow> string \<Rightarrow> state \<Rightarrow> state" where
  "console_error label m s = s\<lparr>console := console s @ [label @ '' '' @ m]\<rparr>"

definition readSettingsFile :: "state \<Rightarrow> state" where
  "readSettingsFile s =
     (case settingsFile s of
        Unreadable m \<Rightarrow> console_error ''Failed to read settings file:'' m s
      | Doc None \<Rightarrow> s
      | Doc (Some en) \<Rightarrow>
          (case defaultProvider en of
             None \<Rightarrow> s
           | Some p \<Rightarrow> if p = [] then s else s\<lparr>currentProvider := p\<rparr>))"

definition initializeDatabase :: "env \<Rightarrow> state \<Rightarrow> failure + state" where
  "initializeDatabase e s =
     (let s1 = readSettingsFile s in
      case create_err e of
        Some m \<Rightarrow> Inl (Error m)
      | None \<Rightarrow>
          (case get_err e of
             Some m \<Rightarrow> Inl (Error m)
           | None \<Rightarrow>
               (case map_of (settings_tbl s1) ''current_provider'' of
                  Some v \<Rightarrow> Inr (s1\<lparr>currentProvider := v\<rparr>)
                | None \<Rightarrow>
                    (case run_err e of
                       Some m \<Rightarrow> Inl (Error m)
                     | None \<Rightarrow>
                         Inr (s1\<lparr>settings_tbl :=
                                settings_tbl s1 @ [(''current_provider'', currentProvider s1)]\<rparr>)))))"

text \<open>\<open>run\<close>: a process started on the persistent world \<open>w\<close>.\<close>

definition run :: "env \<Rightarrow> state \<Rightarrow> failure + state" where
  "run e w = initializeDatabase e (constructor w)"

section \<open>Backends\<close>

text \<open>\<open>Array.prototype.join\<close>, and a property in a template string.\<close>

fun join :: "string \<Rightarrow> string list \<Rightarrow> string" where
  "join sep [] = []"
| "join sep [x] = x"
| "join sep (x # y # ys) = x @ sep @ join sep (y # ys)"

definition undefined_or :: "string option \<Rightarrow> string" where
  "undefined_or x = (case x of None \<Rightarrow> ''undefined'' | Some v \<Rightarrow> v)"

definition queryOpenAI :: "state \<Rightarrow> env \<Rightarrow> string \<Rightarrow> (failure + string) \<times> state" where
  "queryOpenAI s e msg =
     (if openaiKey s = [] then (Inl (Error ''OpenAI API key not configured''), s)
      else
        (let s1 = s\<lparr>network := network s @
                    [Post ''https://api.openai.com/v1/chat/completions''
                       (map_of (currentModel s) ''openai'') msg]\<rparr>
         in case post e of
              HttpFail c m \<Rightarrow> (Inl (Error m), s1)
            | HttpOk t \<Rightarrow> (Inr t, s1)))"

definition queryAnthropic :: "state \<Rightarrow> env \<Rightarrow> string \<Rightarrow> (failure + string) \<times> state" where
  "queryAnthropic s e msg =
     (if anthropicKey s = [] then (Inl (Error ''Anthropic API key not configured''), s)
      else
        (let s1 = s\<lparr>network := network s @
                    [Post ''https://api.anthropic.com/v1/messages''
                       (map_of (currentModel s) ''anthropic'') msg]\<rparr>
         in case post e of
              HttpFail c m \<Rightarrow> (Inl (Error m), s1)
            | HttpOk t \<Rightarrow> (Inr t, s1)))"

definition queryOpenRouter :: "state \<Rightarrow> env \<Rightarrow> string \<Rightarrow> (failure + string) \<times> state" where
  "queryOpenRouter s e msg =
     (if openrouterKey s = [] then (Inl (Error ''OpenRouter API key not configured''), s)
      else
        (let s1 = s\<lparr>network := network s @
                    [Post ''https://openrouter.ai/api/v1/chat/completions''
                       (map_of (currentModel s) ''openrouter'') msg]\<rparr>
         in case post e of
              HttpFail c m \<Rightarrow> (Inl (Error m), s1)
            | HttpOk t \<Rightarrow> (Inr t, s1)))"

text \<open>
  The check of the local service's model list, written twice in the source (in
  \<open>queryOllama\<close> and in the \<open>ollama\<close> case of \<open>handleUseModel\<close>): the inner
  \<open>try\<close> with its \<open>catch\<close> that replaces a refused connection by a hint.
\<close>

definition ollamaModelCheck :: "state \<Rightarrow> env \<Rightarrow> string option \<Rightarrow> (failure + unit) \<times> state" where
  "ollamaModelCheck s e model =
     (let s1 = s\<lparr>network := network s @ [Get ''http://localhost:11434/api/tags'']\<rparr>
      in case tags e of
           HttpFail c m \<Rightarrow>
             (if c = ''ECONNREFUSED''
              then (Inl (Error ''Ollama is not running. Please start Ollama first (https://ollama.ai)''), s1)
              else (Inl (Error m), s1))
         | HttpOk names \<Rightarrow>
             (if model \<in> Some ` set names then (Inr (), s1)
              else (Inl (Error (''Model '' @ undefined_or model
                                 @ '' not found. Available models: '' @ join '', '' names)), s1)))"

text \<open>
  \<open>error.message\<close> of a caught value. For an \<open>McpError\<close> the protocol library
  builds the message from the code and the text given to the constructor.
\<close>

definition code_number :: "ErrorCode \<Rightarrow> string" where
  "code_number c = (case c of InvalidParams \<Rightarrow> ''-32602'' | InternalError \<Rightarrow> ''-32603''
                    | MethodNotFound \<Rightarrow> ''-32601'')"

definition message_of :: "failure \<Rightarrow> string" where
  "message_of f = (case f of Error m \<Rightarrow> m
                   | McpError c m \<Rightarrow> ''MCP error '' @ code_number c @ '': '' @ m)"

definition orUnknown :: "string \<Rightarrow> string" where
  "orUnknown m = (if m = [] then ''Unknown error'' else m)"

definition queryOllama :: "state \<Rightarrow> env \<Rightarrow> string \<Rightarrow> (failure + string) \<times> state" where
  "queryOllama s e msg =
     (case ollamaModelCheck s e (map_of (currentModel s) ''ollama'') of
        (Inl err, s1) \<Rightarrow> (Inl (Error (''Ollama error: '' @ orUnknown (message_of err))), s1)
      | (Inr u, s1) \<Rightarrow>
          (let s2 = s1\<lparr>network := network s1 @
                      [Post ''http://localhost:11434/api/generate''
                         (map_of (currentModel s1) ''ollama'') msg]\<rparr>
           in case post e of
                HttpFail c m \<Rightarrow> (Inl (Error (''Ollama error: '' @ orUnknown m)), s2)
              | HttpOk t \<Rightarrow>
                  (if t = [] then (Inl (Error ''Ollama error: No response received from Ollama''), s2)
                   else (Inr t, s2))))"

section \<open>Memory store\<close>

definition storeMemory :: "state \<Rightarrow> env \<Rightarrow> string \<Rightarrow> string \<Rightarrow> string \<Rightarrow> (failure + unit) \<times> state" where
  "storeMemory s e p r pr =
     (case run_err e of
        Some m \<Rightarrow> (Inl (Error m), s)
      | None \<Rightarrow>
          (Inr (),
           s\<lparr>memory_tbl := memory_tbl s @
                [\<lparr>mem_id = Suc (memory_seq s), userId = DEFAULT_USER, prompt = p,
                  response = r, timestamp = now e, provider = pr\<rparr>],
              memory_seq := Suc (memory_seq s)\<rparr>))"

text \<open>
  \<open>ORDER BY timestamp DESC\<close>: the rows by descending timestamp. The statement names
  no second key, so rows of one timestamp stay in the order in which the engine
  scans the table.
\<close>

definition order_by_timestamp_desc :: "Memory list \<Rightarrow> Memory list" where
  "order_by_timestamp_desc rows = sort_key (\<lambda>m. - int (timestamp m)) rows"

text \<open>
  \<open>LIMIT ?\<close> with the bound number. The engine takes the number only if it converts
  to a 64-bit integer without loss, which an integer does when it lies strictly
  between \<open>- 2 ^ 63\<close> and \<open>2 ^ 63\<close>; any other number makes the statement fail
  with \<open>SQLITE_MISMATCH\<close>. A negative bound is no bound at all.
\<close>

definition fits_int64 :: "int \<Rightarrow> bool" where
  "fits_int64 n = (- (2 ^ 63) < n \<and> n < 2 ^ 63)"

definition sql_limit :: "int \<Rightarrow> 'a list \<Rightarrow> 'a list" where
  "sql_limit n rows = (if n < 0 then rows else take (nat n) rows)"

definition sql_limit_param :: "int \<Rightarrow> 'a list \<Rightarrow> failure + 'a list" where
  "sql_limit_param n rows =
     (if fits_int64 n then Inr (sql_limit n rows)
      else Inl (Error ''SQLITE_MISMATCH: datatype mismatch''))"

text \<open>
  \<open>handleGetMemory\<close>. The parameter of the statement is \<open>args.limit || 10\<close>: the
  number 0 is falsy and becomes 10.
\<close>

definition handleGetMemory :: "state \<Rightarrow> env \<Rightarrow> args option \<Rightarrow> (failure + Memory list) \<times> state" where
  "handleGetMemory s e ao =
     (case ao of
        None \<Rightarrow> (Inl (typeError ''limit''), s)
      | Some a \<Rightarrow>
          (case get_err e of
             Some m \<Rightarrow> (Inl (Error m), s)
           | None \<Rightarrow>
               (case arg_limit a of
                  LimitNull \<Rightarrow> (Inr (order_by_timestamp_desc (memory_tbl s)), s)
                | LimitOmitted \<Rightarrow>
                    (sql_limit_param 10 (order_by_timestamp_desc (memory_tbl s)), s)
                | LimitNum n \<Rightarrow>
                    (sql_limit_param (if n = 0 then 10 else n)
                       (order_by_timestamp_desc (memory_tbl s)), s)
                | LimitFraction \<Rightarrow> (Inl (Error ''SQLITE_MISMATCH: datatype mismatch''), s))))"

definition handleClearMemory :: "state \<Rightarrow> env \<Rightarrow> (failure + string) \<times> state" where
  "handleClearMemory s e =
     (case run_err e of
        Some m \<Rightarrow> (Inl (Error m), s)
      | None \<Rightarrow> (Inr ''Memory cleared'', s\<lparr>memory_tbl := []\<rparr>))"

section \<open>Tool handlers\<close>

text \<open>The \<open>switch\<close> of \<open>handleChat\<close> on the current provider.\<close>

definition callBackend :: "state \<Rightarrow> env \<Rightarrow> args \<Rightarrow> string \<Rightarrow> (failure + string) \<times> state" where
  "callBackend s e a msg =
     (if currentProvider s = ''openai'' then queryOpenAI s e msg
      else if currentProvider s = ''anthropic'' then queryAnthropic s e msg
      else if currentProvider s = ''openrouter'' then queryOpenRouter s e msg
      else if currentProvider s = ''ollama'' then queryOllama s e msg
      else (Inl (McpError InvalidParams
                   (''Unsupported provider: '' @ undefined_or (arg_provider a))), s))"

text \<open>The \<open>catch\<close> of \<open>handleChat\<close>.\<close>

definition chatError :: "args \<Rightarrow> failure \<Rightarrow> failure" where
  "chatError a err =
     McpError InternalError
       (''Error querying '' @ undefined_or (arg_provider a) @ '': '' @ orUnknown (message_of err))"

definition handleChat :: "state \<Rightarrow> env \<Rightarrow> args option \<Rightarrow> (failure + string) \<times> state" where
  "handleChat s e ao =
     (case ao of
        None \<Rightarrow> (Inl (typeError ''message''), s)
      | Some a \<Rightarrow>
     (case arg_message a of
        None \<Rightarrow> (Inl (McpError InvalidParams ''Missing required parameter: message''), s)
      | Some msg \<Rightarrow>
          (if msg = [] then (Inl (McpError InvalidParams ''Missing required parameter: message''), s)
           else
             (case callBackend s e a msg of
                (Inl err, s1) \<Rightarrow> (Inl (chatError a err), s1)
              | (Inr resp, s1) \<Rightarrow>
                  (case storeMemory s1 e msg resp (currentProvider s1) of
                     (Inl err, s2) \<Rightarrow> (Inl (chatError a err), s2)
                   | (Inr u, s2) \<Rightarrow> (Inr resp, s2))))))"

definition validProviders :: "string list" where
  "validProviders = [''openai'', ''anthropic'', ''openrouter'', ''ollama'']"

definition updateSettingsFile :: "state \<Rightarrow> env \<Rightarrow> string \<Rightarrow> state" where
  "updateSettingsFile s e p =
     (case settingsFile s of
        Unreadable m \<Rightarrow> console_error ''Failed to update settings file:'' m s
      | Doc None \<Rightarrow> s
      | Doc (Some en) \<Rightarrow>
          (case write_err e of
             Some m \<Rightarrow> console_error ''Failed to update settings file:'' m s
           | None \<Rightarrow> s\<lparr>settingsFile := Doc (Some (en\<lparr>defaultProvider := Some p\<rparr>))\<rparr>))"

text \<open>\<open>UPDATE settings SET value = ? WHERE key = ?\<close>: only rows that exist change.\<close>

definition sql_update :: "string \<Rightarrow> string \<Rightarrow> (string \<times> string) list \<Rightarrow> (string \<times> string) list" where
  "sql_update k v rows = map (\<lambda>r. if fst r = k then (k, v) else r) rows"

definition handleUseProvider :: "state \<Rightarrow> env \<Rightarrow> args option \<Rightarrow> (failure + string) \<times> state" where
  "handleUseProvider s e ao =
     (case ao of
        None \<Rightarrow> (Inl (typeError ''provider''), s)
      | Some a \<Rightarrow>
     (case arg_provider a of
        None \<Rightarrow> (Inl (McpError InvalidParams ''Missing required parameter: provider''), s)
      | Some p \<Rightarrow>
          (if p = [] then (Inl (McpError InvalidParams ''Missing required parameter: provider''), s)
           else if p \<notin> set validProviders
           then (Inl (McpError InvalidParams
                        (''Invalid provider. Must be one of: '' @ join '', '' validProviders)), s)
           else
             (let s1 = s\<lparr>currentProvider := p\<rparr> in
              case run_err e of
                Some m \<Rightarrow> (Inl (Error m), s1)
              | None \<Rightarrow>
                  (let s2 = s1\<lparr>settings_tbl := sql_update ''current_provider'' p (settings_tbl s1)\<rparr>;
                       s3 = updateSettingsFile s2 e p
                   in (Inr (''Now using '' @ p @ '' as the LLM provider (saved to settings)''), s3))))))"

definition openaiModels :: "string list" where
  "openaiModels = [''gpt-4o'', ''gpt-4o-mini'', ''gpt-4-turbo'']"

definition anthropicModels :: "string list" where
  "anthropicModels = [''claude-3-haiku'', ''claude-3-sonnet'', ''claude-3-opus'',
                      ''claude-3.5-haiku'', ''claude-3.5-sonnet'']"

text \<open>The \<open>switch\<close> of \<open>handleUseModel\<close>: the validation rule of the current provider.\<close>

definition validateModel :: "state \<Rightarrow> env \<Rightarrow> string \<Rightarrow> (failure + unit) \<times> state" where
  "validateModel s e model =
     (if currentProvider s = ''openai'' then
        (if model \<in> set openaiModels then (Inr (), s)
         else (Inl (Error (''Invalid OpenAI model. Available models: '' @ join '', '' openaiModels)), s))
      else if currentProvider s = ''openrouter'' then
        (if CHR ''/'' \<in> set model then (Inr (), s)
         else (Inl (Error ''OpenRouter model must be in format: provider/model (e.g., openai/gpt-4, anthropic/claude-2)''), s))
      else if currentProvider s = ''ollama'' then ollamaModelCheck s e (Some model)
      else if currentProvider s = ''anthropic'' then
        (if model \<in> set anthropicModels then (Inr (), s)
         else (Inl (Error (''Invalid Anthropic model. Available models: '' @ join '', '' anthropicModels)), s))
      else (Inl (Error (''Cannot set model for provider: '' @ currentProvider s)), s))"

text \<open>
  The rewriting of the settings document in \<open>handleUseModel\<close>, which stands in the
  \<open>try\<close> block of the handler with no \<open>catch\<close> of its own.
\<close>

definition writeModelToSettingsFile :: "state \<Rightarrow> env \<Rightarrow> string \<Rightarrow> (failure + unit) \<times> state" where
  "writeModelToSettingsFile s e model =
     (case settingsFile s of
        Unreadable m \<Rightarrow> (Inl (Error m), s)
      | Doc None \<Rightarrow> (Inr (), s)
      | Doc (Some en) \<Rightarrow>
          (case write_err e of
             Some m \<Rightarrow> (Inl (Error m), s)
           | None \<Rightarrow>
               (Inr (),
                s\<lparr>settingsFile := Doc (Some (en\<lparr>models :=
                     Some (AList.update (currentProvider s) model
                             (case models en of None \<Rightarrow> [] | Some ms \<Rightarrow> ms))\<rparr>))\<rparr>)))"

text \<open>The \<open>catch\<close> of \<open>handleUseModel\<close>.\<close>

definition modelError :: "failure \<Rightarrow> failure" where
  "modelError err =
     McpError InternalError (if message_of err = [] then ''Failed to set model'' else message_of err)"

definition handleUseModel :: "state \<Rightarrow> env \<Rightarrow> args option \<Rightarrow> (failure + string) \<times> state" where
  "handleUseModel s e ao =
     (case ao of
        None \<Rightarrow> (Inl (typeError ''model''), s)
      | Some a \<Rightarrow>
     (case arg_model a of
        None \<Rightarrow> (Inl (McpError InvalidParams ''Missing required parameter: model''), s)
      | Some model \<Rightarrow>
          (if model = [] then (Inl (McpError InvalidParams ''Missing required parameter: model''), s)
           else
             (case validateModel s e model of
                (Inl err, s1) \<Rightarrow> (Inl (modelError err), s1)
              | (Inr u, s1) \<Rightarrow>
                  (let s2 = s1\<lparr>currentModel :=
                              AList.update (currentProvider s1) model (currentModel s1)\<rparr>
                   in case writeModelToSettingsFile s2 e model of
                        (Inl err, s3) \<Rightarrow> (Inl (modelError err), s3)
                      | (Inr u, s3) \<Rightarrow>
                          (Inr (''Now using '' @ model @ '' with '' @ currentProvider s3), s3))))))"

text \<open>The handler of \<open>CallToolRequestSchema\<close>: the dispatch on the tool name.\<close>

datatype tool_result = Text string | Rows "Memory list"

definition as_text :: "(failure + string) \<times> state \<Rightarrow> (failure + tool_result) \<times> state" where
  "as_text r = (map_sum (\<lambda>x. x) Text (fst r), snd r)"

definition as_rows :: "(failure + Memory list) \<times> state \<Rightarrow> (failure + tool_result) \<times> state" where
  "as_rows r = (map_sum (\<lambda>x. x) Rows (fst r), snd r)"

definition callTool :: "state \<Rightarrow> env \<Rightarrow> string \<Rightarrow> args option \<Rightarrow> (failure + tool_result) \<times> state" where
  "callTool s e name a =
     (if name = ''chat'' then as_text (handleChat s e a)
      else if name = ''get_memory'' then as_rows (handleGetMemory s e a)
      else if name = ''clear_memory'' then as_text (handleClearMemory s e)
      else if name = ''use_provider'' then as_text (handleUseProvider s e a)
      else if name = ''use_model'' then as_text (handleUseModel s e a)
      else (Inl (McpError MethodNotFound (''Unknown tool: '' @ name)), s))"

text \<open>A session: the calls the transport delivers, one after the other.\<close>

fun session :: "state \<Rightarrow> (env \<times> string \<times> args option) list \<Rightarrow> state" where
  "session s [] = s"
| "session s ((e, name, a) # cs) = session (snd (callTool s e name a)) cs"

section \<open>Notions used to state the properties\<close>

text \<open>
  The provider value the settings document supplies: the document is readable, has
  an entry for this server, and the entry carries a non-empty \<open>defaultProvider\<close>.
\<close>

definition mirrorProvider :: "mirror \<Rightarrow> string option" where
  "mirrorProvider f =
     (case f of
        Unreadable m \<Rightarrow> None
      | Doc None \<Rightarrow> None
      | Doc (Some en) \<Rightarrow>
          (case defaultProvider en of None \<Rightarrow> None | Some p \<Rightarrow> if p = [] then None else Some p))"

text \<open>
  The value a start resolves on the world \<open>w\<close>: the row \<open>current_provider\<close> if
  there is one, else the provider of the settings document, else \<open>openai\<close>.
\<close>

definition resolvedProvider :: "state \<Rightarrow> string" where
  "resolvedProvider w =
     (case map_of (settings_tbl w) ''current_provider'' of
        Some v \<Rightarrow> v
      | None \<Rightarrow> (case mirrorProvider (settingsFile w) of Some p \<Rightarrow> p | None \<Rightarrow> ''openai''))"

definition providerAfterLoad :: "env \<Rightarrow> state \<Rightarrow> string option" where
  "providerAfterLoad e w = (case run e w of Inl f \<Rightarrow> None | Inr s \<Rightarrow> Some (currentProvider s))"

text \<open>The durable row \<open>current_provider\<close> exists.\<close>

definition rowPresent :: "state \<Rightarrow> bool" where
  "rowPresent s = (map_of (settings_tbl s) ''current_provider'' \<noteq> None)"

text \<open>
  The secret the current provider requires and does not have, as the message of the
  error its query function throws; \<open>None\<close> when the provider requires no secret
  or has it.
\<close>

definition missingSecret :: "state \<Rightarrow> string option" where
  "missingSecret s =
     (if currentProvider s = ''openai'' \<and> openaiKey s = [] then Some ''OpenAI API key not configured''
      else if currentProvider s = ''anthropic'' \<and> anthropicKey s = []
        then Some ''Anthropic API key not configured''
      else if currentProvider s = ''openrouter'' \<and> openrouterKey s = []
        then Some ''OpenRouter API key not configured''
      else None)"

subsection \<open>Concrete worlds\<close>

text \<open>
  An outside world in which the database and the file system raise no error, the
  local service is not running and a cloud backend answers \<open>hi\<close>.
\<close>

definition env0 :: env where
  "env0 = \<lparr>create_err = None, get_err = None, run_err = None, write_err = None, now = 0,
           tags = HttpFail ''ECONNREFUSED'' ''connect ECONNREFUSED 127.0.0.1:11434'',
           post = HttpOk ''hi''\<rparr>"

text \<open>A machine with an empty database, no settings document and no secret.\<close>

definition world0 :: state where
  "world0 = \<lparr>currentProvider = [], currentModel = [], openaiKey = [], anthropicKey = [],
             openrouterKey = [], settings_tbl = [], memory_tbl = [], memory_seq = 0,
             settingsFile = Unreadable ''ENOENT: no such file or directory'',
             console = [], network = []\<rparr>"

text \<open>A settings document whose entry for this server names the provider \<open>p\<close>.\<close>

definition entry :: "string \<Rightarrow> mirror" where
  "entry p = Doc (Some \<lparr>defaultProvider = Some p, models = None\<rparr>)"

text \<open>Arguments objects: the empty one, and the one of \<open>use_provider\<close> for \<open>ollama\<close>.\<close>

definition noArgs :: args where
  "noArgs = \<lparr>arg_message = None, arg_provider = None, arg_model = None, arg_limit = LimitOmitted\<rparr>"

definition useOllama :: args where
  "useOllama = \<lparr>arg_message = None, arg_provider = Some ''ollama'', arg_model = None,
                arg_limit = LimitOmitted\<rparr>"

text \<open>Arguments objects of \<open>chat\<close> and of \<open>use_model\<close>.\<close>

definition chatHello :: args where
  "chatHello = noArgs\<lparr>arg_message := Some ''hello''\<rparr>"

definition useModel :: "string \<Rightarrow> args" where
  "useModel m = noArgs\<lparr>arg_model := Some m\<rparr>"

text \<open>A fresh process on a machine that has the secret of the first cloud provider.\<close>

definition keyed :: state where
  "keyed = constructor (world0\<lparr>openaiKey := ''sk-test''\<rparr>)"

text \<open>The same process after two \<open>chat\<close> calls within one second of the store's clock.\<close>

definition twoChats :: state where
  "twoChats = session keyed [(env0\<lparr>now := 5\<rparr>, ''chat'', Some chatHello),
                             (env0\<lparr>now := 5\<rparr>, ''chat'', Some chatHello)]"

section \<open>Startup: which provider is current after loading\<close>

lemma readSettingsFile_provider:
  "currentProvider (readSettingsFile s) =
     (case mirrorProvider (settingsFile s) of Some p \<Rightarrow> p | None \<Rightarrow> currentProvider s)"
  by (simp add: readSettingsFile_def console_error_def mirrorProvider_def
      split: mirror.splits option.splits)

lemma readSettingsFile_tbl [simp]: "settings_tbl (readSettingsFile s) = settings_tbl s"
  by (simp add: readSettingsFile_def console_error_def split: mirror.splits option.splits)

lemma run_ok:
  assumes "create_err e = None" "get_err e = None"
    and "map_of (settings_tbl w) ''current_provider'' = None \<Longrightarrow> run_err e = None"
  shows "\<exists>s. run e w = Inr s \<and> currentProvider s = resolvedProvider w
           \<and> map_of (settings_tbl s) ''current_provider'' = Some (currentProvider s)"
  using assms
  by (auto simp: run_def initializeDatabase_def Let_def constructor_def resolvedProvider_def map_add_def
      readSettingsFile_provider split: option.splits)

lemma run_provider:
  "run e w = Inr s \<Longrightarrow> currentProvider s = resolvedProvider w
     \<and> map_of (settings_tbl s) ''current_provider'' = Some (currentProvider s)"
  by (auto simp: run_def initializeDatabase_def Let_def constructor_def resolvedProvider_def map_add_def
      readSettingsFile_provider split: option.splits)

text \<open>
  C1, as the code has it. When the database raises no error, loading succeeds and
  the current provider is: the value of the durable row \<open>current_provider\<close> if the
  row exists, whatever the settings document says; otherwise the provider value of
  the settings document, if the document is readable and names this server with one;
  otherwise the compiled-in default \<open>openai\<close>. In each case the durable row holds
  the current provider afterwards (in the last two it is inserted).
\<close>

theorem load_precedence:
  "create_err e = None \<Longrightarrow> get_err e = None \<Longrightarrow> run_err e = None \<Longrightarrow>
   \<exists>s. run e w = Inr s
     \<and> currentProvider s =
         (case map_of (settings_tbl w) ''current_provider'' of
            Some v \<Rightarrow> v
          | None \<Rightarrow> (case mirrorProvider (settingsFile w) of Some p \<Rightarrow> p | None \<Rightarrow> ''openai''))
     \<and> map_of (settings_tbl s) ''current_provider'' = Some (currentProvider s)"
  using run_ok [of e w] by (simp add: resolvedProvider_def)

text \<open>
  With an empty database and a settings document naming \<open>anthropic\<close>, loading
  adopts \<open>anthropic\<close> and inserts it as the durable row.
\<close>

theorem load_precedence_witness:
  "create_err env0 = None \<and> get_err env0 = None \<and> run_err env0 = None \<and>
   (\<exists>s. run env0 (world0\<lparr>settingsFile := entry ''anthropic''\<rparr>) = Inr s
      \<and> currentProvider s = ''anthropic''
      \<and> map_of (settings_tbl s) ''current_provider'' = Some ''anthropic'')"
  using load_precedence [of env0 "world0\<lparr>settingsFile := entry ''anthropic''\<rparr>"]
  by (auto simp: env0_def world0_def entry_def mirrorProvider_def)

text \<open>
  C1 as stated fails: the settings document supplies \<open>anthropic\<close>, the durable row
  holds \<open>ollama\<close>, and the current provider after loading is \<open>ollama\<close>.
\<close>

theorem load_row_overrides_mirror:
  "mirrorProvider (settingsFile (world0\<lparr>settingsFile := entry ''anthropic'',
        settings_tbl := [(''current_provider'', ''ollama'')]\<rparr>)) = Some ''anthropic''
   \<and> providerAfterLoad env0 (world0\<lparr>settingsFile := entry ''anthropic'',
        settings_tbl := [(''current_provider'', ''ollama'')]\<rparr>) = Some ''ollama''"
  by (simp add: providerAfterLoad_def run_def initializeDatabase_def constructor_def
      readSettingsFile_def env0_def world0_def entry_def mirrorProvider_def)

section \<open>What the handlers leave unchanged\<close>

lemma frame_refl [simp]: "\<exists>n. s = s\<lparr>network := network s @ n\<rparr>"
  by (rule exI [of _ "[]"]) simp

lemma ollamaModelCheck_frame:
  "ollamaModelCheck s e m = (r, s') \<Longrightarrow> \<exists>n. s' = s\<lparr>network := network s @ n\<rparr>"
  by (auto simp: ollamaModelCheck_def Let_def split: http.splits if_splits)

lemma callBackend_frame:
  "callBackend s e a msg = (r, s') \<Longrightarrow> \<exists>n. s' = s\<lparr>network := network s @ n\<rparr>"
  by (auto simp: callBackend_def queryOpenAI_def queryAnthropic_def queryOpenRouter_def
      queryOllama_def Let_def dest!: ollamaModelCheck_frame
      split: http.splits if_splits prod.splits sum.splits)

lemma handleChat_keeps_Some:
  "currentProvider (snd (handleChat s e (Some a))) = currentProvider s"
  "settings_tbl (snd (handleChat s e (Some a))) = settings_tbl s"
proof -
  obtain r1 s1 where b: "callBackend s e a (the (arg_message a)) = (r1, s1)"
    by (cases "callBackend s e a (the (arg_message a))")
  from callBackend_frame [OF b] obtain n where s1: "s1 = s\<lparr>network := network s @ n\<rparr>" ..
  show "currentProvider (snd (handleChat s e (Some a))) = currentProvider s"
    using b s1 by (auto simp: handleChat_def storeMemory_def split: sum.splits option.splits)
  show "settings_tbl (snd (handleChat s e (Some a))) = settings_tbl s"
    using b s1 by (auto simp: handleChat_def storeMemory_def split: sum.splits option.splits)
qed

lemma handleChat_keeps:
  "currentProvider (snd (handleChat s e ao)) = currentProvider s"
  "settings_tbl (snd (handleChat s e ao)) = settings_tbl s"
  by (cases ao; simp add: handleChat_keeps_Some; simp add: handleChat_def)+

lemma validateModel_frame:
  "validateModel s e m = (r, s') \<Longrightarrow> \<exists>n. s' = s\<lparr>network := network s @ n\<rparr>"
  by (auto simp: validateModel_def dest!: ollamaModelCheck_frame split: if_splits)

lemma handleUseModel_keeps_Some:
  "currentProvider (snd (handleUseModel s e (Some a))) = currentProvider s"
  "settings_tbl (snd (handleUseModel s e (Some a))) = settings_tbl s"
proof -
  obtain r1 s1 where b: "validateModel s e (the (arg_model a)) = (r1, s1)"
    by (cases "validateModel s e (the (arg_model a))")
  from validateModel_frame [OF b] obtain n where s1: "s1 = s\<lparr>network := network s @ n\<rparr>" ..
  show "currentProvider (snd (handleUseModel s e (Some a))) = currentProvider s"
    using b s1 by (auto simp: handleUseModel_def writeModelToSettingsFile_def Let_def
        split: sum.splits option.splits mirror.splits)
  show "settings_tbl (snd (handleUseModel s e (Some a))) = settings_tbl s"
    using b s1 by (auto simp: handleUseModel_def writeModelToSettingsFile_def Let_def
        split: sum.splits option.splits mirror.splits)
qed

lemma handleUseModel_keeps:
  "currentProvider (snd (handleUseModel s e ao)) = currentProvider s"
  "settings_tbl (snd (handleUseModel s e ao)) = settings_tbl s"
  by (cases ao; simp add: handleUseModel_keeps_Some; simp add: handleUseModel_def)+

lemma map_of_sql_update:
  "map_of (sql_update k v rows) k = (if map_of rows k = None then None else Some v)"
  by (induction rows) (auto simp: sql_update_def)

lemma handleUseProvider_provider:
  "handleUseProvider s e a = (r, s') \<Longrightarrow> currentProvider s \<in> set validProviders \<Longrightarrow>
     currentProvider s' \<in> set validProviders"
  by (auto simp: handleUseProvider_def Let_def updateSettingsFile_def console_error_def
      split: option.splits if_splits mirror.splits)

lemma handleUseProvider_row:
  "handleUseProvider s e a = (r, s') \<Longrightarrow> rowPresent s \<Longrightarrow> rowPresent s'"
  by (auto simp: handleUseProvider_def Let_def updateSettingsFile_def console_error_def
      rowPresent_def map_of_sql_update
      split: option.splits if_splits mirror.splits)


lemma handleGetMemory_state: "snd (handleGetMemory s e a) = s"
  by (simp add: handleGetMemory_def split: option.splits limit_arg.splits)

text \<open>
  What \<open>get_memory\<close> answers when the call has no arguments object, and when the
  number bound to \<open>LIMIT\<close> does not convert to a 64-bit integer.
\<close>

lemma get_memory_without_arguments:
  "handleGetMemory s e None = (Inl (typeError ''limit''), s)"
  by (simp add: handleGetMemory_def)

lemma get_memory_limit_mismatch:
  assumes "get_err e = None" "arg_limit a = LimitNum n" "n \<le> - (2 ^ 63) \<or> 2 ^ 63 \<le> n"
  shows "handleGetMemory s e (Some a) = (Inl (Error ''SQLITE_MISMATCH: datatype mismatch''), s)"
  using assms by (auto simp: handleGetMemory_def sql_limit_param_def fits_int64_def)

lemma handleClearMemory_keeps:
  "currentProvider (snd (handleClearMemory s e)) = currentProvider s"
  "settings_tbl (snd (handleClearMemory s e)) = settings_tbl s"
  by (simp_all add: handleClearMemory_def split: option.splits)

lemma callTool_provider:
  "currentProvider s \<in> set validProviders \<Longrightarrow>
   currentProvider (snd (callTool s e name a)) \<in> set validProviders"
  using handleUseProvider_provider [of s e a "fst (handleUseProvider s e a)" "snd (handleUseProvider s e a)"]
  by (simp add: callTool_def as_text_def as_rows_def handleChat_keeps handleUseModel_keeps
      handleGetMemory_state handleClearMemory_keeps)

lemma callTool_row:
  "rowPresent s \<Longrightarrow> rowPresent (snd (callTool s e name a))"
  using handleUseProvider_row [of s e a "fst (handleUseProvider s e a)" "snd (handleUseProvider s e a)"]
  by (simp add: callTool_def as_text_def as_rows_def handleChat_keeps handleUseModel_keeps
      handleGetMemory_state handleClearMemory_keeps rowPresent_def)

lemma session_row: "rowPresent s \<Longrightarrow> rowPresent (session s cs)"
  by (induction s cs rule: session.induct) (simp_all add: callTool_row)

lemma session_provider:
  "currentProvider s \<in> set validProviders \<Longrightarrow> currentProvider (session s cs) \<in> set validProviders"
  by (induction s cs rule: session.induct) (simp_all add: callTool_provider)

lemma run_row: "run e w = Inr s \<Longrightarrow> rowPresent s"
  using run_provider [of e w s] by (simp add: rowPresent_def)

lemma handleUseProvider_success:
  assumes "handleUseProvider s e (Some a) = (Inr r, s')" "arg_provider a = Some p"
  shows "currentProvider s' = p"
    and "map_of (settings_tbl s') ''current_provider'' =
           (if rowPresent s then Some p else None)"
    and "p \<in> set validProviders"
  using assms
  by (auto simp: handleUseProvider_def Let_def updateSettingsFile_def console_error_def
      rowPresent_def map_of_sql_update split: option.splits if_splits mirror.splits)

section \<open>The current provider and the registered identifiers\<close>

text \<open>
  C6, as the code has it. Loading validates nothing: after a successful start the
  current provider is registered exactly when the value the start resolves (the
  durable row if it exists, else the provider of the settings document, else
  \<open>openai\<close>) is registered. Every tool call preserves the property: if the current
  provider is registered before the call, it is registered after it, whatever the
  tool, its arguments and the answers of the outside world.
\<close>

theorem provider_registered:
  "(run e w = Inr s \<longrightarrow>
      (currentProvider s \<in> set validProviders) = (resolvedProvider w \<in> set validProviders))
   \<and> (currentProvider s' \<in> set validProviders \<longrightarrow>
        currentProvider (snd (callTool s' e' name a)) \<in> set validProviders)"
  using run_provider [of e w s] callTool_provider [of s' e' name a] by auto

text \<open>
  A start on a settings document naming \<open>anthropic\<close>, followed by
  \<open>use_provider\<close> for \<open>ollama\<close>.
\<close>

theorem provider_registered_witness:
  "\<exists>s. run env0 (world0\<lparr>settingsFile := entry ''anthropic''\<rparr>) = Inr s
      \<and> resolvedProvider (world0\<lparr>settingsFile := entry ''anthropic''\<rparr>) \<in> set validProviders
      \<and> currentProvider s \<in> set validProviders
      \<and> currentProvider (snd (callTool s env0 ''use_provider'' (Some useOllama))) \<in> set validProviders"
proof -
  let ?w = "world0\<lparr>settingsFile := entry ''anthropic''\<rparr>"
  obtain s where r: "run env0 ?w = Inr s"
    using run_ok [of env0 ?w] by (auto simp: env0_def)
  have v: "resolvedProvider ?w \<in> set validProviders"
    by (simp add: resolvedProvider_def world0_def entry_def mirrorProvider_def validProviders_def)
  from provider_registered [of env0 ?w s s env0 "''use_provider''" "Some useOllama"] r v
  show ?thesis by auto
qed

text \<open>
  C6 as stated fails at startup: with an empty database and a settings document
  naming \<open>chatgpt\<close>, the current provider after loading is \<open>chatgpt\<close>.
\<close>

theorem load_adopts_unregistered:
  "providerAfterLoad env0 (world0\<lparr>settingsFile := entry ''chatgpt''\<rparr>) = Some ''chatgpt''
   \<and> ''chatgpt'' \<notin> set validProviders"
  by (simp add: providerAfterLoad_def run_def initializeDatabase_def constructor_def
      readSettingsFile_def env0_def world0_def entry_def validProviders_def)

section \<open>Switching the provider\<close>

text \<open>
  C8. For an identifier that is not one of the four registered providers,
  \<open>use_provider\<close> fails with an \<open>McpError\<close> of code \<open>InvalidParams\<close> and the
  whole state is as before: the current provider in memory, the durable row and the
  settings document are not modified.
\<close>

theorem use_provider_rejects_unregistered:
  "arg_provider a = Some p \<Longrightarrow> p \<notin> set validProviders \<Longrightarrow>
   \<exists>msg. handleUseProvider s e (Some a) = (Inl (McpError InvalidParams msg), s)"
  by (simp add: handleUseProvider_def)

text \<open>The identifier \<open>chatgpt\<close> is rejected.\<close>

theorem use_provider_rejects_unregistered_witness:
  "arg_provider (noArgs\<lparr>arg_provider := Some ''chatgpt''\<rparr>) = Some ''chatgpt''
   \<and> ''chatgpt'' \<notin> set validProviders
   \<and> (\<exists>msg. handleUseProvider keyed env0 (Some (noArgs\<lparr>arg_provider := Some ''chatgpt''\<rparr>))
              = (Inl (McpError InvalidParams msg), keyed))"
  using use_provider_rejects_unregistered
    [of "noArgs\<lparr>arg_provider := Some ''chatgpt''\<rparr>" "''chatgpt''" keyed env0]
  by (simp add: validProviders_def)

text \<open>
  C9. A process starts, serves any sequence of tool calls, and then answers
  \<open>use_provider\<close> for \<open>ollama\<close> with success. Take any new process whose database
  has the settings rows the first one left and whose settings document is not
  readable; nothing else of the old process is kept, the fields in memory are
  arbitrary. Whenever the database raises no error, the new process loads
  successfully and its current provider is \<open>ollama\<close>: the value written to the
  durable row is the value read back.
\<close>

theorem use_provider_survives_restart:
  assumes "run e0 w = Inr s0"
    and "handleUseProvider (session s0 cs) e (Some a) = (Inr r, s1)"
    and "arg_provider a = Some ''ollama''"
    and "settings_tbl w' = settings_tbl s1"
    and "settingsFile w' = Unreadable m"
    and "create_err e2 = None" and "get_err e2 = None"
  shows "\<exists>s2. run e2 w' = Inr s2 \<and> currentProvider s2 = ''ollama''"
proof -
  have "rowPresent (session s0 cs)" using assms(1) by (intro session_row run_row)
  with handleUseProvider_success(2) [OF assms(2,3)] assms(4)
  have row: "map_of (settings_tbl w') ''current_provider'' = Some ''ollama''" by simp
  then have res: "resolvedProvider w' = ''ollama''"
    by (simp add: resolvedProvider_def)
  from run_ok [of e2 w'] assms(6,7) row res
  show ?thesis by auto
qed

text \<open>
  A first start on the empty machine, one \<open>clear_memory\<close>, the switch to
  \<open>ollama\<close>, and a new process that has nothing of the old one but the settings
  rows: in memory its provider field is empty before it loads.
\<close>

theorem use_provider_survives_restart_witness:
  "\<exists>s0 r s1 s2.
     run env0 world0 = Inr s0
     \<and> handleUseProvider (session s0 [(env0, ''clear_memory'', None)]) env0 (Some useOllama)
         = (Inr r, s1)
     \<and> arg_provider useOllama = Some ''ollama''
     \<and> settings_tbl (world0\<lparr>settings_tbl := settings_tbl s1\<rparr>) = settings_tbl s1
     \<and> settingsFile (world0\<lparr>settings_tbl := settings_tbl s1\<rparr>)
         = Unreadable ''ENOENT: no such file or directory''
     \<and> currentProvider (world0\<lparr>settings_tbl := settings_tbl s1\<rparr>) = []
     \<and> create_err env0 = None \<and> get_err env0 = None
     \<and> run env0 (world0\<lparr>settings_tbl := settings_tbl s1\<rparr>) = Inr s2
     \<and> currentProvider s2 = ''ollama''"
proof -
  obtain s0 where 1: "run env0 world0 = Inr s0"
    using run_ok [of env0 world0] by (auto simp: env0_def)
  let ?s = "session s0 [(env0, ''clear_memory'', None)]"
  have "\<exists>r s1. handleUseProvider ?s env0 (Some useOllama) = (Inr r, s1)"
    by (simp add: handleUseProvider_def useOllama_def validProviders_def env0_def Let_def)
  then obtain r s1 where 2: "handleUseProvider ?s env0 (Some useOllama) = (Inr r, s1)" by blast
  let ?w = "world0\<lparr>settings_tbl := settings_tbl s1\<rparr>"
  have 3: "arg_provider useOllama = Some ''ollama''" by (simp add: useOllama_def)
  have 4: "settings_tbl ?w = settings_tbl s1" by simp
  have 5: "settingsFile ?w = Unreadable ''ENOENT: no such file or directory''"
    by (simp add: world0_def)
  have 6: "currentProvider ?w = []" by (simp add: world0_def)
  have 7: "create_err env0 = None" and 8: "get_err env0 = None" by (simp_all add: env0_def)
  from use_provider_survives_restart [OF 1 2 3 4 5 7 8] 1 2 3 4 5 6 7 8
  show ?thesis by blast
qed

text \<open>
  Once the provider is validated and the durable row is written, \<open>use_provider\<close>
  reports success whatever the settings document is and whether or not it can be
  written: \<open>updateSettingsFile\<close> catches every failure of the document and only
  logs it.
\<close>

lemma use_provider_mirror_failure_hidden:
  assumes "arg_provider a = Some p" "p \<in> set validProviders" "run_err e = None"
  shows "fst (handleUseProvider s e (Some a))
           = Inr (''Now using '' @ p @ '' as the LLM provider (saved to settings)'')"
  using assms by (auto simp: handleUseProvider_def Let_def validProviders_def)

section \<open>Reading the memory\<close>

lemma order_desc_sorted:
  "sorted_wrt (\<lambda>x y. timestamp y \<le> timestamp x) (order_by_timestamp_desc rows)"
proof -
  have "sorted (map (\<lambda>m. - int (timestamp m)) (order_by_timestamp_desc rows))"
    by (simp add: order_by_timestamp_desc_def)
  then show ?thesis by (simp add: sorted_map)
qed

lemma order_desc_mset: "mset (order_by_timestamp_desc rows) = mset rows"
  by (simp add: order_by_timestamp_desc_def)

lemma sql_limit_sorted:
  "sorted_wrt P rows \<Longrightarrow> sorted_wrt P (sql_limit n rows)"
  by (simp add: sql_limit_def sorted_wrt_take)

lemma sql_limit_length: "0 \<le> n \<Longrightarrow> int (length (sql_limit n rows)) \<le> n"
  by (simp add: sql_limit_def)

lemma sql_limit_prefix: "sql_limit n rows = take (length (sql_limit n rows)) rows"
  by (auto simp: sql_limit_def min_def)

lemma sql_limit_param_ok:
  "fits_int64 n \<Longrightarrow> sql_limit_param n rows = Inr (sql_limit n rows)"
  by (simp add: sql_limit_param_def)

text \<open>
  C3, as the code has it. Take a call of \<open>get_memory\<close> with an arguments object
  whose limit is omitted, is \<open>null\<close>, or is an integer from 1 to \<open>2 ^ 63 - 1\<close>, and
  let the database raise no error. Then, for every store, the call returns a
  sequence of Exchanges ordered by descending timestamp (an earlier Exchange never
  has a smaller timestamp than a later one), which is an initial part of the whole
  store in that order. For the integer limit it has at most that many Exchanges; for
  the limit \<open>null\<close> it has every stored Exchange, each once; for an omitted limit it
  has at most 10. The statement of the query names no key besides the timestamp, so
  nothing is said about the order of Exchanges of one timestamp; nothing is said
  about the limit 0 either.
\<close>

theorem get_memory_limit_and_order:
  assumes "get_err e = None"
    and "arg_limit a = LimitOmitted \<or> arg_limit a = LimitNull
         \<or> (\<exists>n. arg_limit a = LimitNum n \<and> 1 \<le> n \<and> n < 2 ^ 63)"
  shows "\<exists>ms. handleGetMemory s e (Some a) = (Inr ms, s)
           \<and> sorted_wrt (\<lambda>x y. timestamp y \<le> timestamp x) ms
           \<and> ms = take (length ms) (order_by_timestamp_desc (memory_tbl s))
           \<and> (\<forall>n. arg_limit a = LimitNum n \<longrightarrow> int (length ms) \<le> n)
           \<and> (arg_limit a = LimitNull \<longrightarrow> mset ms = mset (memory_tbl s))
           \<and> (arg_limit a = LimitOmitted \<longrightarrow> length ms \<le> 10)"
proof (cases "arg_limit a")
  case LimitOmitted
  have f: "fits_int64 10" by (simp add: fits_int64_def)
  from LimitOmitted show ?thesis
    using assms(1) sql_limit_length [of 10 "order_by_timestamp_desc (memory_tbl s)"]
      sql_limit_prefix [of 10 "order_by_timestamp_desc (memory_tbl s)"]
    by (simp add: handleGetMemory_def sql_limit_param_ok [OF f] sql_limit_sorted order_desc_sorted)
next
  case LimitNull
  then show ?thesis using assms(1)
    by (simp add: handleGetMemory_def order_desc_sorted order_desc_mset)
next
  case (LimitNum n)
  with assms(2) have n: "1 \<le> n" "n < 2 ^ 63" by auto
  then have f: "fits_int64 n" by (simp add: fits_int64_def)
  from LimitNum n show ?thesis
    using assms(1) sql_limit_length [of n "order_by_timestamp_desc (memory_tbl s)"]
      sql_limit_prefix [of n "order_by_timestamp_desc (memory_tbl s)"]
    by (simp add: handleGetMemory_def sql_limit_param_ok [OF f] sql_limit_sorted order_desc_sorted)
next
  case LimitFraction
  with assms(2) show ?thesis by simp
qed

text \<open>The store after two chats, read with the limit 1, with \<open>null\<close> and with no limit.\<close>

theorem get_memory_limit_and_order_witness:
  "get_err env0 = None
   \<and> (\<exists>ms. handleGetMemory twoChats env0 (Some (noArgs\<lparr>arg_limit := LimitNum 1\<rparr>)) = (Inr ms, twoChats)
           \<and> arg_limit (noArgs\<lparr>arg_limit := LimitNum 1\<rparr>) = LimitNum 1
           \<and> (1::int) \<le> 1 \<and> (1::int) < 2 ^ 63
           \<and> int (length ms) \<le> 1)
   \<and> (\<exists>ms. handleGetMemory twoChats env0 (Some (noArgs\<lparr>arg_limit := LimitNull\<rparr>)) = (Inr ms, twoChats)
           \<and> arg_limit (noArgs\<lparr>arg_limit := LimitNull\<rparr>) = LimitNull
           \<and> mset ms = mset (memory_tbl twoChats))
   \<and> (\<exists>ms. handleGetMemory twoChats env0 (Some noArgs) = (Inr ms, twoChats)
           \<and> arg_limit noArgs = LimitOmitted
           \<and> length ms \<le> 10)"
proof -
  have e: "get_err env0 = None" by (simp add: env0_def)
  have 1: "arg_limit (noArgs\<lparr>arg_limit := LimitNum 1\<rparr>) = LimitNum 1" by simp
  have 2: "arg_limit (noArgs\<lparr>arg_limit := LimitNull\<rparr>) = LimitNull" by simp
  have 3: "arg_limit noArgs = LimitOmitted" by (simp add: noArgs_def)
  have v1: "arg_limit (noArgs\<lparr>arg_limit := LimitNum 1\<rparr>) = LimitOmitted
            \<or> arg_limit (noArgs\<lparr>arg_limit := LimitNum 1\<rparr>) = LimitNull
            \<or> (\<exists>n. arg_limit (noArgs\<lparr>arg_limit := LimitNum 1\<rparr>) = LimitNum n \<and> 1 \<le> n \<and> n < 2 ^ 63)"
    by simp
  have v2: "arg_limit (noArgs\<lparr>arg_limit := LimitNull\<rparr>) = LimitOmitted
            \<or> arg_limit (noArgs\<lparr>arg_limit := LimitNull\<rparr>) = LimitNull
            \<or> (\<exists>n. arg_limit (noArgs\<lparr>arg_limit := LimitNull\<rparr>) = LimitNum n \<and> 1 \<le> n \<and> n < 2 ^ 63)"
    by simp
  have v3: "arg_limit noArgs = LimitOmitted \<or> arg_limit noArgs = LimitNull
            \<or> (\<exists>n. arg_limit noArgs = LimitNum n \<and> 1 \<le> n \<and> n < 2 ^ 63)"
    by (simp add: noArgs_def)
  from get_memory_limit_and_order [OF e v1, of twoChats]
       get_memory_limit_and_order [OF e v2, of twoChats]
       get_memory_limit_and_order [OF e v3, of twoChats] e 1 2 3
  show ?thesis by (simp only: simp_thms) fastforce
qed

text \<open>
  C3 as stated fails: after two chats within one second, \<open>get_memory\<close> with the
  limit 0 returns both Exchanges, which is more than 0, and the two Exchanges of
  equal timestamp come with the smaller identifier first.
\<close>

theorem get_memory_zero_limit_and_ties:
  "handleGetMemory twoChats env0 (Some (noArgs\<lparr>arg_limit := LimitNum 0\<rparr>))
   = (Inr [\<lparr>mem_id = 1, userId = ''default_user'', prompt = ''hello'',
            response = ''hi'', timestamp = 5, provider = ''openai''\<rparr>,
          \<lparr>mem_id = 2, userId = ''default_user'', prompt = ''hello'',
            response = ''hi'', timestamp = 5, provider = ''openai''\<rparr>],
      twoChats)"
  by (simp add: handleGetMemory_def callTool_def as_text_def handleChat_def callBackend_def
      queryOpenAI_def storeMemory_def twoChats_def keyed_def constructor_def world0_def env0_def
      chatHello_def noArgs_def DEFAULT_USER_def order_by_timestamp_desc_def sql_limit_def
      sql_limit_param_def fits_int64_def)

section \<open>Chat\<close>

lemma callBackend_memory:
  "callBackend s e a msg = (r, s1) \<Longrightarrow>
     memory_tbl s1 = memory_tbl s \<and> memory_seq s1 = memory_seq s \<and> currentProvider s1 = currentProvider s"
  using callBackend_frame [of s e a msg r s1] by auto

text \<open>
  C4. Take a chat call with a message whose backend call succeeds with the text
  \<open>resp\<close>. If the insertion into the store succeeds, the call returns \<open>resp\<close>
  and the store is the old one followed by exactly one Exchange, with the given
  prompt, the text \<open>resp\<close> and the current provider. If the insertion fails, the
  call fails with an internal error and the store is unchanged: no response is
  delivered. Conversely, whenever a chat call delivers a response \<open>out\<close>, the store
  has grown by exactly the Exchange of the call's message and \<open>out\<close>.
\<close>

theorem chat_stores_exchange:
  "(arg_message a = Some msg \<and> msg \<noteq> [] \<and> callBackend s e a msg = (Inr resp, s1) \<longrightarrow>
      (run_err e = None \<longrightarrow>
         handleChat s e (Some a) =
           (Inr resp,
            s1\<lparr>memory_tbl := memory_tbl s @
                  [\<lparr>mem_id = Suc (memory_seq s), userId = DEFAULT_USER, prompt = msg,
                    response = resp, timestamp = now e, provider = currentProvider s\<rparr>],
                memory_seq := Suc (memory_seq s)\<rparr>))
      \<and> (\<forall>m. run_err e = Some m \<longrightarrow>
             (\<exists>t. handleChat s e (Some a) = (Inl (McpError InternalError t), s1))
             \<and> memory_tbl s1 = memory_tbl s))
   \<and> (handleChat s e ao = (Inr out, s') \<longrightarrow>
        (\<exists>a' m. ao = Some a' \<and> arg_message a' = Some m
           \<and> memory_tbl s' = memory_tbl s @
                [\<lparr>mem_id = Suc (memory_seq s), userId = DEFAULT_USER, prompt = m,
                  response = out, timestamp = now e, provider = currentProvider s\<rparr>]))"
proof (intro conjI impI)
  assume h: "arg_message a = Some msg \<and> msg \<noteq> [] \<and> callBackend s e a msg = (Inr resp, s1)"
  note k = callBackend_memory [of s e a msg "Inr resp" s1]
  { assume "run_err e = None"
    with h k show "handleChat s e (Some a) =
           (Inr resp,
            s1\<lparr>memory_tbl := memory_tbl s @
                  [\<lparr>mem_id = Suc (memory_seq s), userId = DEFAULT_USER, prompt = msg,
                    response = resp, timestamp = now e, provider = currentProvider s\<rparr>],
                memory_seq := Suc (memory_seq s)\<rparr>)"
      by (simp add: handleChat_def storeMemory_def) }
  show "\<forall>m. run_err e = Some m \<longrightarrow>
             (\<exists>t. handleChat s e (Some a) = (Inl (McpError InternalError t), s1))
             \<and> memory_tbl s1 = memory_tbl s"
    using h k by (simp add: handleChat_def storeMemory_def chatError_def)
next
  assume h: "handleChat s e ao = (Inr out, s')"
  then obtain a' where a': "ao = Some a'"
    by (cases ao) (auto simp: handleChat_def)
  with h obtain m where m: "arg_message a' = Some m" "m \<noteq> []"
    by (auto simp: handleChat_def split: option.splits if_splits)
  obtain r1 s1 where b: "callBackend s e a' m = (r1, s1)" by (cases "callBackend s e a' m")
  note k = callBackend_memory [OF b]
  from h a' m b k have "memory_tbl s' = memory_tbl s @
                [\<lparr>mem_id = Suc (memory_seq s), userId = DEFAULT_USER, prompt = m,
                  response = out, timestamp = now e, provider = currentProvider s\<rparr>]"
    by (auto simp: handleChat_def storeMemory_def split: sum.splits option.splits)
  with a' m show "\<exists>a' m. ao = Some a' \<and> arg_message a' = Some m
           \<and> memory_tbl s' = memory_tbl s @
                [\<lparr>mem_id = Suc (memory_seq s), userId = DEFAULT_USER, prompt = m,
                  response = out, timestamp = now e, provider = currentProvider s\<rparr>]"
    by blast
qed

text \<open>
  A chat with the first cloud provider, once with a healthy database and once with a
  full one.
\<close>

theorem chat_stores_exchange_witness:
  "arg_message chatHello = Some ''hello'' \<and> ''hello'' \<noteq> []
   \<and> callBackend keyed env0 chatHello ''hello''
       = (Inr ''hi'', keyed\<lparr>network := [Post ''https://api.openai.com/v1/chat/completions''
                                          (Some ''gpt-3.5-turbo'') ''hello'']\<rparr>)
   \<and> run_err env0 = None
   \<and> handleChat keyed env0 (Some chatHello)
       = (Inr ''hi'',
          keyed\<lparr>network := [Post ''https://api.openai.com/v1/chat/completions''
                               (Some ''gpt-3.5-turbo'') ''hello''],
                memory_tbl := [\<lparr>mem_id = 1, userId = ''default_user'', prompt = ''hello'',
                                 response = ''hi'', timestamp = 0, provider = ''openai''\<rparr>],
                memory_seq := 1\<rparr>)
   \<and> callBackend keyed (env0\<lparr>run_err := Some ''SQLITE_FULL: database or disk is full''\<rparr>)
         chatHello ''hello''
       = (Inr ''hi'', keyed\<lparr>network := [Post ''https://api.openai.com/v1/chat/completions''
                                          (Some ''gpt-3.5-turbo'') ''hello'']\<rparr>)
   \<and> run_err (env0\<lparr>run_err := Some ''SQLITE_FULL: database or disk is full''\<rparr>)
       = Some ''SQLITE_FULL: database or disk is full''
   \<and> (\<exists>t. handleChat keyed (env0\<lparr>run_err := Some ''SQLITE_FULL: database or disk is full''\<rparr>)
               (Some chatHello)
             = (Inl (McpError InternalError t),
                keyed\<lparr>network := [Post ''https://api.openai.com/v1/chat/completions''
                                     (Some ''gpt-3.5-turbo'') ''hello'']\<rparr>))
   \<and> memory_tbl (keyed\<lparr>network := [Post ''https://api.openai.com/v1/chat/completions''
                                     (Some ''gpt-3.5-turbo'') ''hello'']\<rparr>) = memory_tbl keyed"
proof -
  let ?sent = "keyed\<lparr>network := [Post ''https://api.openai.com/v1/chat/completions''
                                          (Some ''gpt-3.5-turbo'') ''hello'']\<rparr>"
  let ?full = "env0\<lparr>run_err := Some ''SQLITE_FULL: database or disk is full''\<rparr>"
  have a: "arg_message chatHello = Some ''hello''" by (simp add: chatHello_def)
  have n: "''hello'' \<noteq> []" by simp
  have b: "callBackend keyed env0 chatHello ''hello'' = (Inr ''hi'', ?sent)"
    by (simp add: callBackend_def queryOpenAI_def keyed_def constructor_def world0_def env0_def)
  have b': "callBackend keyed ?full chatHello ''hello'' = (Inr ''hi'', ?sent)"
    by (simp add: callBackend_def queryOpenAI_def keyed_def constructor_def world0_def env0_def)
  have r: "run_err env0 = None" by (simp add: env0_def)
  have r': "run_err ?full = Some ''SQLITE_FULL: database or disk is full''" by simp
  have k: "memory_tbl keyed = []" "memory_seq keyed = 0" "currentProvider keyed = ''openai''"
    by (simp_all add: keyed_def constructor_def world0_def)
  from chat_stores_exchange [of chatHello "''hello''" keyed env0 "''hi''" ?sent] a n b r
  have 1: "handleChat keyed env0 (Some chatHello)
       = (Inr ''hi'',
          keyed\<lparr>network := [Post ''https://api.openai.com/v1/chat/completions''
                               (Some ''gpt-3.5-turbo'') ''hello''],
                memory_tbl := [\<lparr>mem_id = 1, userId = ''default_user'', prompt = ''hello'',
                                 response = ''hi'', timestamp = 0, provider = ''openai''\<rparr>],
                memory_seq := 1\<rparr>)"
    by (simp add: k DEFAULT_USER_def env0_def)
  from chat_stores_exchange [of chatHello "''hello''" keyed ?full "''hi''" ?sent] a n b' r'
  have 2: "(\<exists>t. handleChat keyed ?full (Some chatHello) = (Inl (McpError InternalError t), ?sent))
           \<and> memory_tbl ?sent = memory_tbl keyed"
    by simp
  show ?thesis using a n b b' r r' 1 2 by (simp only: simp_thms)
qed

text \<open>
  C7, as the code has it. While the current provider requires a secret that is not
  configured, every chat call, whatever its arguments and with or without an
  arguments object, fails and leaves the whole state as it was: no HTTP call is
  logged and no Exchange is added. When the call carries a non-empty message, the
  failure is the configuration error of the provider, reported as an internal error
  whose text ends with the provider's "API key not configured".
\<close>

theorem chat_without_secret:
  assumes "missingSecret s = Some m"
  shows "\<exists>f. handleChat s e ao = (Inl f, s)
           \<and> (\<forall>a msg. ao = Some a \<longrightarrow> arg_message a = Some msg \<longrightarrow> msg \<noteq> [] \<longrightarrow>
                 f = McpError InternalError
                       (''Error querying '' @ undefined_or (arg_provider a) @ '': '' @ m))"
  using assms
  by (auto simp: missingSecret_def handleChat_def callBackend_def queryOpenAI_def
      queryAnthropic_def queryOpenRouter_def chatError_def message_of_def orUnknown_def
      split: option.splits if_splits)

text \<open>A chat on a machine with no secret, the current provider being \<open>openai\<close>.\<close>

theorem chat_without_secret_witness:
  "missingSecret (constructor world0) = Some ''OpenAI API key not configured''
   \<and> arg_message chatHello = Some ''hello'' \<and> ''hello'' \<noteq> []
   \<and> handleChat (constructor world0) env0 (Some chatHello)
       = (Inl (McpError InternalError ''Error querying undefined: OpenAI API key not configured''),
          constructor world0)"
proof -
  have m: "missingSecret (constructor world0) = Some ''OpenAI API key not configured''"
    by (simp add: missingSecret_def constructor_def world0_def)
  have a: "arg_message chatHello = Some ''hello''" by (simp add: chatHello_def)
  from chat_without_secret [OF m, of env0 "Some chatHello"] a
  have "handleChat (constructor world0) env0 (Some chatHello)
       = (Inl (McpError InternalError ''Error querying undefined: OpenAI API key not configured''),
          constructor world0)"
    by (auto simp: undefined_or_def chatHello_def noArgs_def)
  with m a show ?thesis by simp
qed

text \<open>
  C7 as stated fails for a call whose message is empty: the check of the arguments
  comes first, and the call fails with invalid-params, not with the configuration
  error.
\<close>

theorem chat_empty_message_without_secret:
  "missingSecret (constructor world0) = Some ''OpenAI API key not configured''
   \<and> handleChat (constructor world0) env0 (Some (noArgs\<lparr>arg_message := Some []\<rparr>))
       = (Inl (McpError InvalidParams ''Missing required parameter: message''), constructor world0)"
  by (simp add: missingSecret_def handleChat_def constructor_def world0_def)

section \<open>Switching the model\<close>

text \<open>
  C5, as the code has it. For a non-empty model argument, \<open>use_model\<close> rejects a
  model by the rule of the current provider: for the two closed-list providers a
  model outside the compiled list, with a message listing the valid models; for the
  aggregator a model without \<open>/\<close>; for the local service a model absent from the
  live list, with a message enumerating that list. Each of these rejections reaches
  the caller as an \<open>McpError\<close> of code \<open>InternalError\<close> carrying the message of
  the validation, and no model is changed.
\<close>

theorem use_model_rejections:
  assumes "arg_model a = Some model" "model \<noteq> []"
  shows "(currentProvider s = ''openai'' \<and> model \<notin> set openaiModels \<longrightarrow>
            handleUseModel s e (Some a) =
              (Inl (McpError InternalError
                 ''Invalid OpenAI model. Available models: gpt-4o, gpt-4o-mini, gpt-4-turbo''), s))
       \<and> (currentProvider s = ''anthropic'' \<and> model \<notin> set anthropicModels \<longrightarrow>
            handleUseModel s e (Some a) =
              (Inl (McpError InternalError
                 ''Invalid Anthropic model. Available models: claude-3-haiku, claude-3-sonnet, claude-3-opus, claude-3.5-haiku, claude-3.5-sonnet''), s))
       \<and> (currentProvider s = ''openrouter'' \<and> CHR ''/'' \<notin> set model \<longrightarrow>
            handleUseModel s e (Some a) =
              (Inl (McpError InternalError
                 ''OpenRouter model must be in format: provider/model (e.g., openai/gpt-4, anthropic/claude-2)''), s))
       \<and> (currentProvider s = ''ollama'' \<and> tags e = HttpOk names \<and> model \<notin> set names \<longrightarrow>
            handleUseModel s e (Some a) =
              (Inl (McpError InternalError
                 (''Model '' @ model @ '' not found. Available models: '' @ join '', '' names)),
               s\<lparr>network := network s @ [Get ''http://localhost:11434/api/tags'']\<rparr>))"
  using assms
  by (auto simp: handleUseModel_def validateModel_def ollamaModelCheck_def modelError_def
      message_of_def openaiModels_def anthropicModels_def undefined_or_def Let_def image_iff)

text \<open>The model \<open>gpt-5\<close> under each of the four providers.\<close>

theorem use_model_rejections_witness:
  "arg_model (useModel ''gpt-5'') = Some ''gpt-5'' \<and> ''gpt-5'' \<noteq> []
   \<and> currentProvider (constructor world0) = ''openai'' \<and> ''gpt-5'' \<notin> set openaiModels
   \<and> handleUseModel (constructor world0) env0 (Some (useModel ''gpt-5'')) =
        (Inl (McpError InternalError
           ''Invalid OpenAI model. Available models: gpt-4o, gpt-4o-mini, gpt-4-turbo''),
         constructor world0)
   \<and> currentProvider ((constructor world0)\<lparr>currentProvider := ''anthropic''\<rparr>) = ''anthropic''
   \<and> ''gpt-5'' \<notin> set anthropicModels
   \<and> handleUseModel ((constructor world0)\<lparr>currentProvider := ''anthropic''\<rparr>) env0 (Some (useModel ''gpt-5'')) =
        (Inl (McpError InternalError
           ''Invalid Anthropic model. Available models: claude-3-haiku, claude-3-sonnet, claude-3-opus, claude-3.5-haiku, claude-3.5-sonnet''),
         (constructor world0)\<lparr>currentProvider := ''anthropic''\<rparr>)
   \<and> currentProvider ((constructor world0)\<lparr>currentProvider := ''openrouter''\<rparr>) = ''openrouter''
   \<and> CHR ''/'' \<notin> set ''gpt-5''
   \<and> handleUseModel ((constructor world0)\<lparr>currentProvider := ''openrouter''\<rparr>) env0 (Some (useModel ''gpt-5'')) =
        (Inl (McpError InternalError
           ''OpenRouter model must be in format: provider/model (e.g., openai/gpt-4, anthropic/claude-2)''),
         (constructor world0)\<lparr>currentProvider := ''openrouter''\<rparr>)
   \<and> currentProvider ((constructor world0)\<lparr>currentProvider := ''ollama''\<rparr>) = ''ollama''
   \<and> tags (env0\<lparr>tags := HttpOk [''llama2'', ''codellama'']\<rparr>) = HttpOk [''llama2'', ''codellama'']
   \<and> ''gpt-5'' \<notin> set [''llama2'', ''codellama'']
   \<and> handleUseModel ((constructor world0)\<lparr>currentProvider := ''ollama''\<rparr>)
         (env0\<lparr>tags := HttpOk [''llama2'', ''codellama'']\<rparr>) (Some (useModel ''gpt-5'')) =
        (Inl (McpError InternalError ''Model gpt-5 not found. Available models: llama2, codellama''),
         (constructor world0)\<lparr>currentProvider := ''ollama'',
            network := [Get ''http://localhost:11434/api/tags'']\<rparr>)"
proof -
  have a: "arg_model (useModel ''gpt-5'') = Some ''gpt-5''" by (simp add: useModel_def)
  have n: "''gpt-5'' \<noteq> []" by simp
  note t = use_model_rejections [OF a n]
  have 1: "handleUseModel (constructor world0) env0 (Some (useModel ''gpt-5'')) =
        (Inl (McpError InternalError
           ''Invalid OpenAI model. Available models: gpt-4o, gpt-4o-mini, gpt-4-turbo''),
         constructor world0)"
    using t [of "constructor world0" env0 "[]"]
    by (simp add: constructor_def openaiModels_def)
  have 2: "handleUseModel ((constructor world0)\<lparr>currentProvider := ''anthropic''\<rparr>) env0 (Some (useModel ''gpt-5'')) =
        (Inl (McpError InternalError
           ''Invalid Anthropic model. Available models: claude-3-haiku, claude-3-sonnet, claude-3-opus, claude-3.5-haiku, claude-3.5-sonnet''),
         (constructor world0)\<lparr>currentProvider := ''anthropic''\<rparr>)"
    using t [of "(constructor world0)\<lparr>currentProvider := ''anthropic''\<rparr>" env0 "[]"]
    by (simp add: anthropicModels_def)
  have 3: "handleUseModel ((constructor world0)\<lparr>currentProvider := ''openrouter''\<rparr>) env0 (Some (useModel ''gpt-5'')) =
        (Inl (McpError InternalError
           ''OpenRouter model must be in format: provider/model (e.g., openai/gpt-4, anthropic/claude-2)''),
         (constructor world0)\<lparr>currentProvider := ''openrouter''\<rparr>)"
    using t [of "(constructor world0)\<lparr>currentProvider := ''openrouter''\<rparr>" env0 "[]"]
    by simp
  have 4: "handleUseModel ((constructor world0)\<lparr>currentProvider := ''ollama''\<rparr>)
         (env0\<lparr>tags := HttpOk [''llama2'', ''codellama'']\<rparr>) (Some (useModel ''gpt-5'')) =
        (Inl (McpError InternalError ''Model gpt-5 not found. Available models: llama2, codellama''),
         (constructor world0)\<lparr>currentProvider := ''ollama'',
            network := [Get ''http://localhost:11434/api/tags'']\<rparr>)"
    using t [of "(constructor world0)\<lparr>currentProvider := ''ollama''\<rparr>"
        "env0\<lparr>tags := HttpOk [''llama2'', ''codellama'']\<rparr>" "[''llama2'', ''codellama'']"]
    by (simp add: constructor_def world0_def)
  show ?thesis using a 1 2 3 4
    by (simp add: constructor_def openaiModels_def anthropicModels_def)
qed

text \<open>
  C5 as stated fails: the rejection of \<open>gpt-5\<close> under \<open>openai\<close> has the code
  \<open>InternalError\<close>, not \<open>InvalidParams\<close>; and the empty model, which is not in
  the compiled list either, is rejected by the check of the arguments, with a
  message that lists no model.
\<close>

theorem use_model_rejection_is_internal_error:
  "handleUseModel (constructor world0) env0 (Some (useModel ''gpt-5''))
   = (Inl (McpError InternalError
        ''Invalid OpenAI model. Available models: gpt-4o, gpt-4o-mini, gpt-4-turbo''),
      constructor world0)
   \<and> [] \<notin> set openaiModels
   \<and> handleUseModel (constructor world0) env0 (Some (useModel []))
       = (Inl (McpError InvalidParams ''Missing required parameter: model''), constructor world0)"
  by (simp add: handleUseModel_def validateModel_def modelError_def message_of_def
      openaiModels_def constructor_def useModel_def noArgs_def)

lemma map_of_update_same: "map_of (AList.update k v al) k = Some v"
  by (simp add: update_conv')

text \<open>
  C10. When the validation of the model succeeds and the settings document then
  cannot be read, or has an entry for this server and cannot be written,
  \<open>use_model\<close> reports an internal error to the caller, and yet the current model
  of the current provider is already the new model.
\<close>

theorem use_model_not_atomic:
  assumes "arg_model a = Some model" "model \<noteq> []"
    and "validateModel s e model = (Inr (), s1)"
    and "settingsFile s = Unreadable m \<or> (\<exists>en. settingsFile s = Doc (Some en) \<and> write_err e = Some m)"
  shows "\<exists>t s'. handleUseModel s e (Some a) = (Inl (McpError InternalError t), s')
           \<and> map_of (currentModel s') (currentProvider s') = Some model
           \<and> currentProvider s' = currentProvider s"
proof -
  from validateModel_frame [OF assms(3)] obtain n where s1: "s1 = s\<lparr>network := network s @ n\<rparr>" ..
  show ?thesis using assms s1
    by (auto simp: handleUseModel_def writeModelToSettingsFile_def modelError_def Let_def
        map_of_update_same)
qed

text \<open>The switch to \<open>gpt-4o\<close> on a machine without the settings document.\<close>

theorem use_model_not_atomic_witness:
  "arg_model (useModel ''gpt-4o'') = Some ''gpt-4o'' \<and> ''gpt-4o'' \<noteq> []
   \<and> validateModel (constructor world0) env0 ''gpt-4o'' = (Inr (), constructor world0)
   \<and> settingsFile (constructor world0) = Unreadable ''ENOENT: no such file or directory''
   \<and> map_of (currentModel (constructor world0)) (currentProvider (constructor world0)) = Some ''gpt-3.5-turbo''
   \<and> (\<exists>t s'. handleUseModel (constructor world0) env0 (Some (useModel ''gpt-4o''))
                 = (Inl (McpError InternalError t), s')
          \<and> map_of (currentModel s') (currentProvider s') = Some ''gpt-4o'')"
proof -
  have 1: "arg_model (useModel ''gpt-4o'') = Some ''gpt-4o''" by (simp add: useModel_def)
  have 2: "''gpt-4o'' \<noteq> []" by simp
  have 3: "validateModel (constructor world0) env0 ''gpt-4o'' = (Inr (), constructor world0)"
    by (simp add: validateModel_def constructor_def openaiModels_def)
  have 4: "settingsFile (constructor world0) = Unreadable ''ENOENT: no such file or directory''"
    by (simp add: constructor_def world0_def)
  have 5: "map_of (currentModel (constructor world0)) (currentProvider (constructor world0)) = Some ''gpt-3.5-turbo''"
    by (simp add: constructor_def)
  from use_model_not_atomic [OF 1 2 3 disjI1 [OF 4]] 1 2 3 4 5
  show ?thesis by blast
qed

text \<open>
  C2 does not hold of \<open>use_model\<close>: on a machine without the settings document
  the valid model \<open>gpt-4o\<close> passes the validation, and the call fails with an
  internal error carrying the message of the file system.
\<close>

theorem use_model_mirror_failure_surfaces:
  "handleUseModel (constructor world0) env0 (Some (useModel ''gpt-4o''))
   = (Inl (McpError InternalError ''ENOENT: no such file or directory''),
      (constructor world0)\<lparr>currentModel :=
         [(''openai'', ''gpt-4o''), (''openrouter'', ''openai/gpt-3.5-turbo''),
          (''anthropic'', ''claude-2''), (''ollama'', ''llama3.3:latest'')]\<rparr>)"
  by (simp add: handleUseModel_def validateModel_def writeModelToSettingsFile_def modelError_def
      message_of_def openaiModels_def constructor_def world0_def useModel_def noArgs_def)

end
